theory Spec2Isabelle
  imports Complex_Main
begin

section \<open>Data model\<close>

text \<open>
  The entities of \<^verbatim>\<open>lib/storage.ts\<close>. Every interface has a field \<^verbatim>\<open>id\<close>
  (several have \<^verbatim>\<open>name\<close>, \<^verbatim>\<open>quantity\<close>, \<^verbatim>\<open>createdAt\<close>), so the record fields carry
  the name of their interface as a prefix.

  A TypeScript \<^verbatim>\<open>number\<close> is the type variable \<open>'n\<close>: the functions below use nothing of it
  but \<open>0\<close>, \<open>+\<close> and \<open>*\<close>, and every theorem states the algebraic laws it relies on through
  the type class of \<open>'n\<close>. A theorem at \<open>{zero, plus, times}\<close> relies on no law at all; a theorem
  at a semiring is a statement about exact arithmetic (the rounding of IEEE doubles is not
  modelled).
\<close>

datatype role = Admin | Manager | Employee

record user =
  user_id :: string
  user_email :: string
  user_name :: string
  user_surname :: string
  user_phone :: string
  user_role :: role
  user_password :: string

record 'n material =
  material_id :: string
  material_name :: string
  material_cost :: 'n
  material_unit :: string
  material_stock :: 'n
  material_createdAt :: string

text \<open>The element type \<^verbatim>\<open>{ materialId: string; quantity: number }\<close> of a product's
  materials and of an order's leftovers.\<close>

record 'n material_quantity =
  materialId :: string
  mat_quantity :: 'n

record 'n product =
  product_id :: string
  product_name :: string
  product_materials :: "'n material_quantity list"
  product_createdAt :: string

text \<open>The element type \<^verbatim>\<open>{ productId: string; quantity: number }\<close> of an order's products.\<close>

record 'n product_quantity =
  productId :: string
  quantity :: 'n

datatype status = Pending | InProgress | Completed

text \<open>\<^verbatim>\<open>Pick<Order, 'products'>\<close> is the record with the one field \<^verbatim>\<open>products\<close>; an
  \<^verbatim>\<open>Order\<close> extends it, so that a function on the former accepts the latter.\<close>

record 'n order_pick =
  order_products :: "'n product_quantity list"

record 'n order = "'n order_pick" +
  order_id :: string
  orderNumber :: string
  order_status :: status
  order_totalCost :: 'n
  leftovers :: "'n material_quantity list"
  order_createdAt :: string
  completedAt :: "string option"

section \<open>Pricing resolver\<close>

text \<open>
  \<^verbatim>\<open>calculateOrderCost\<close> (lib/storage.ts): two nested \<^verbatim>\<open>forEach\<close> loops over one mutable
  accumulator \<^verbatim>\<open>totalCost\<close>, here two nested left folds. \<^verbatim>\<open>Array.prototype.find\<close> is
  \<^const>\<open>find\<close>: the first element that satisfies the predicate, \<^verbatim>\<open>undefined\<close> (\<open>None\<close>)
  when there is none; an object is truthy, so \<^verbatim>\<open>if (product)\<close> tests for \<open>Some\<close>.
\<close>

definition calculateOrderCost ::
  "('n::{zero,plus,times}, 'z) order_pick_scheme \<Rightarrow> 'n product list \<Rightarrow> 'n material list \<Rightarrow> 'n" where
  "calculateOrderCost order products materials =
     foldl (\<lambda>totalCost line.
        case find (\<lambda>p. product_id p = productId line) products of
          None \<Rightarrow> totalCost
        | Some product \<Rightarrow>
            foldl (\<lambda>totalCost pm.
               case find (\<lambda>m. material_id m = materialId pm) materials of
                 None \<Rightarrow> totalCost
               | Some material \<Rightarrow>
                   totalCost + material_cost material * mat_quantity pm * quantity line)
              totalCost (product_materials product))
       0 (order_products order)"


text \<open>The body of the outer loop of \<^const>\<open>calculateOrderCost\<close> and the loop over a
  remaining part of the order, from any value of the accumulator (proofs only).\<close>

definition add_line ::
  "'n::{zero,plus,times} product list \<Rightarrow> 'n material list \<Rightarrow> 'n \<Rightarrow> 'n product_quantity \<Rightarrow> 'n" where
  "add_line products materials totalCost line =
     (case find (\<lambda>p. product_id p = productId line) products of
        None \<Rightarrow> totalCost
      | Some product \<Rightarrow>
          foldl (\<lambda>totalCost pm.
             case find (\<lambda>m. material_id m = materialId pm) materials of
               None \<Rightarrow> totalCost
             | Some material \<Rightarrow>
                 totalCost + material_cost material * mat_quantity pm * quantity line)
            totalCost (product_materials product))"



section \<open>The REST server\<close>

text \<open>
  \<^verbatim>\<open>server/index.js\<close>: four MySQL tables behind one route per operation. A table is the
  list of its rows, a row is the entity it holds (\<^verbatim>\<open>mapMaterial\<close>, \<^verbatim>\<open>mapProduct\<close> and
  \<^verbatim>\<open>mapOrder\<close> rename the columns back; the JSON columns hold the lists). The schema is
  part of the source: \<^verbatim>\<open>id VARCHAR(36) PRIMARY KEY\<close> in every table and
  \<^verbatim>\<open>email VARCHAR(255) UNIQUE NOT NULL\<close> in \<^verbatim>\<open>users\<close>; SQL comparison of keys is string
  equality here. The model covers requests whose body has the fields of its TypeScript type,
  with strings that fit their columns, and a server that is reachable.
\<close>

record 'n database =
  users_table :: "user list"
  materials_table :: "'n material list"
  products_table :: "'n product list"
  orders_table :: "'n order list"

text \<open>The one way a well-typed \<^verbatim>\<open>INSERT\<close> or \<^verbatim>\<open>UPDATE\<close> of this schema is rejected: a
  \<^verbatim>\<open>PRIMARY KEY\<close> or \<^verbatim>\<open>UNIQUE\<close> column would hold a value twice (MySQL's duplicate-entry
  error).\<close>

datatype db_error = DuplicateKey

text \<open>What a route answers: \<^verbatim>\<open>res.json\<close> (200), \<^verbatim>\<open>res.status(201).json\<close>,
  \<^verbatim>\<open>res.status(204).send()\<close>, \<^verbatim>\<open>res.status(404).json({ error })\<close>, and the 500 of the
  error middleware, which \<^verbatim>\<open>asyncHandler\<close> reaches when a query throws.\<close>

datatype 'a response =
    Status200 'a
  | Status201 'a
  | Status204
  | Status404 string
  | Status500 db_error

definition sql_insert :: "('r \<Rightarrow> bool) \<Rightarrow> 'r list \<Rightarrow> 'r \<Rightarrow> db_error + 'r list" where
  "sql_insert clashes rows r =
     (if list_ex clashes rows then Inl DuplicateKey else Inr (rows @ [r]))"

text \<open>\<^verbatim>\<open>result.affectedRows\<close> of \<^verbatim>\<open>UPDATE ... WHERE id = :id\<close> and of
  \<^verbatim>\<open>DELETE ... WHERE id = :id\<close>: the rows that the \<^verbatim>\<open>WHERE\<close> clause matches.\<close>

definition affectedRows :: "('r \<Rightarrow> string) \<Rightarrow> string \<Rightarrow> 'r list \<Rightarrow> nat" where
  "affectedRows key i rows = length (filter (\<lambda>r. key r = i) rows)"

definition sql_update :: "('r \<Rightarrow> string) \<Rightarrow> string \<Rightarrow> 'r \<Rightarrow> 'r list \<Rightarrow> 'r list" where
  "sql_update key i r rows = map (\<lambda>row. if key row = i then r else row) rows"

definition sql_delete :: "('r \<Rightarrow> string) \<Rightarrow> string \<Rightarrow> 'r list \<Rightarrow> 'r list" where
  "sql_delete key i rows = filter (\<lambda>row. key row \<noteq> i) rows"

subsection \<open>Users\<close>

definition get_users :: "'n database \<Rightarrow> user list response" where
  "get_users db = Status200 (users_table db)"

definition post_users :: "'n database \<Rightarrow> user \<Rightarrow> user response \<times> 'n database" where
  "post_users db user =
     (case sql_insert (\<lambda>row. user_id row = user_id user \<or> user_email row = user_email user)
             (users_table db) user of
        Inl err \<Rightarrow> (Status500 err, db)
      | Inr rows \<Rightarrow> (Status201 user, db\<lparr>users_table := rows\<rparr>))"

definition put_users :: "'n database \<Rightarrow> string \<Rightarrow> user \<Rightarrow> user response \<times> 'n database" where
  "put_users db i body =
     (let user = body\<lparr>user_id := i\<rparr> in
      if affectedRows user_id i (users_table db) = 0 then (Status404 ''User not found'', db)
      else if list_ex (\<lambda>row. user_id row \<noteq> i \<and> user_email row = user_email user)
                (users_table db)
        then (Status500 DuplicateKey, db)
      else (Status200 user, db\<lparr>users_table := sql_update user_id i user (users_table db)\<rparr>))"

definition delete_users :: "'n database \<Rightarrow> string \<Rightarrow> unit response \<times> 'n database" where
  "delete_users db i =
     (if affectedRows user_id i (users_table db) = 0 then (Status404 ''User not found'', db)
      else (Status204, db\<lparr>users_table := sql_delete user_id i (users_table db)\<rparr>))"

subsection \<open>Materials\<close>


definition get_materials :: "'n database \<Rightarrow> 'n material list response" where
  "get_materials db = Status200 (materials_table db)"




subsection \<open>Products\<close>

definition get_products :: "'n database \<Rightarrow> 'n product list response" where
  "get_products db = Status200 (products_table db)"




subsection \<open>Orders\<close>








section \<open>The REST client\<close>

text \<open>
  \<^verbatim>\<open>request\<close> (lib/storage.ts, the version over \<^verbatim>\<open>fetch\<close>): a response that is not
  \<^verbatim>\<open>ok\<close> is thrown as an \<^verbatim>\<open>Error\<close> (\<open>Inl\<close>, holding the response that the message is read
  from), a 204 gives \<^verbatim>\<open>null\<close>, any other response its JSON body. Each client function takes
  the server's database and returns it as the request left it.
\<close>

definition request :: "'a response \<Rightarrow> 'a response + 'a option" where
  "request response =
     (case response of
        Status200 body \<Rightarrow> Inr (Some body)
      | Status201 body \<Rightarrow> Inr (Some body)
      | Status204 \<Rightarrow> Inr None
      | Status404 message \<Rightarrow> Inl (Status404 message)
      | Status500 err \<Rightarrow> Inl (Status500 err))"

definition getUsers_api :: "'n database \<Rightarrow> user list response + user list option" where
  "getUsers_api db = request (get_users db)"

definition createUser :: "'n database \<Rightarrow> user \<Rightarrow> (user response + user option) \<times> 'n database" where
  "createUser db user = (case post_users db user of (response, db') \<Rightarrow> (request response, db'))"

definition updateUser :: "'n database \<Rightarrow> user \<Rightarrow> (user response + user option) \<times> 'n database" where
  "updateUser db user =
     (case put_users db (user_id user) user of (response, db') \<Rightarrow> (request response, db'))"

definition deleteUser :: "'n database \<Rightarrow> string \<Rightarrow> (unit response + unit option) \<times> 'n database" where
  "deleteUser db i = (case delete_users db i of (response, db') \<Rightarrow> (request response, db'))"





section \<open>Browser storage and the session\<close>

text \<open>
  \<^verbatim>\<open>localStorage\<close> under the five \<^verbatim>\<open>STORAGE_KEYS\<close>: a key is absent (\<open>None\<close>) or holds
  the JSON text of a value, here the value itself (\<^verbatim>\<open>JSON.parse\<close> gives back what
  \<^verbatim>\<open>JSON.stringify\<close> was given). A browser starts with every key absent, and keeps the
  storage from one load of the page to the next.
\<close>

record 'n local_storage =
  USERS :: "user list option"
  MATERIALS :: "'n material list option"
  PRODUCTS :: "'n product list option"
  ORDERS :: "'n order list option"
  CURRENT_USER :: "user option"


definition getUsers :: "'n local_storage \<Rightarrow> user list" where
  "getUsers ls = (case USERS ls of Some data \<Rightarrow> data | None \<Rightarrow> [])"

definition saveUsers :: "user list \<Rightarrow> 'n local_storage \<Rightarrow> 'n local_storage" where
  "saveUsers users ls = ls\<lparr>USERS := Some users\<rparr>"

definition getCurrentUser :: "'n local_storage \<Rightarrow> user option" where
  "getCurrentUser ls = (case CURRENT_USER ls of Some data \<Rightarrow> Some data | None \<Rightarrow> None)"

definition setCurrentUser :: "user option \<Rightarrow> 'n local_storage \<Rightarrow> 'n local_storage" where
  "setCurrentUser user ls =
     (case user of
        Some u \<Rightarrow> ls\<lparr>CURRENT_USER := Some u\<rparr>
      | None \<Rightarrow> ls\<lparr>CURRENT_USER := None\<rparr>)"





text \<open>\<^verbatim>\<open>initializeStorage\<close>: the default admin, under the identifier that
  \<^verbatim>\<open>crypto.randomUUID()\<close> returns, when there is no user.\<close>

definition defaultAdmin :: "string \<Rightarrow> user" where
  "defaultAdmin uuid =
     \<lparr>user_id = uuid, user_email = ''admin@company.com'', user_name = ''Admin'',
      user_surname = ''User'', user_phone = ''+370 600 00000'', user_role = Admin,
      user_password = ''admin123''\<rparr>"

definition initializeStorage :: "string \<Rightarrow> 'n local_storage \<Rightarrow> 'n local_storage" where
  "initializeStorage uuid ls =
     (if length (getUsers ls) = 0 then saveUsers [defaultAdmin uuid] ls else ls)"

section \<open>Pages\<close>

text \<open>A handler is a function of the page's React state and of the store it talks to, to
  the notification it shows and the new state and store. Of a notification the title and
  the variant are kept; the description is left out.\<close>

datatype variant = Default | Destructive

record toast =
  title :: string
  variant :: variant

subsection \<open>Index, LoginPage and Layout\<close>

record 'n app =
  storage :: "'n local_storage"
  isLoggedIn :: bool


definition handleLogin :: "string \<Rightarrow> string \<Rightarrow> string \<Rightarrow> 'n app \<Rightarrow> toast \<times> 'n app" where
  "handleLogin uuid email password app =
     (let ls = initializeStorage uuid (storage app);
          users = getUsers ls
      in case find (\<lambda>u. user_email u = email \<and> user_password u = password) users of
           Some user \<Rightarrow>
             (\<lparr>title = ''Login successful'', variant = Default\<rparr>,
              \<lparr>storage = setCurrentUser (Some user) ls, isLoggedIn = True\<rparr>)
         | None \<Rightarrow>
             (\<lparr>title = ''Login failed'', variant = Destructive\<rparr>,
              app\<lparr>storage := ls\<rparr>))"


subsection \<open>Dashboard\<close>


subsection \<open>UsersPage\<close>

record user_form =
  form_email :: string
  form_name :: string
  form_surname :: string
  form_phone :: string
  form_role :: role
  form_password :: string

definition empty_user_form :: user_form where
  "empty_user_form =
     \<lparr>form_email = [], form_name = [], form_surname = [], form_phone = [],
      form_role = Employee, form_password = []\<rparr>"

record users_page =
  up_users :: "user list"
  up_isDialogOpen :: bool
  up_editingUser :: "user option"
  up_formData :: user_form

text \<open>
  \<^verbatim>\<open>handleSubmit\<close>. \<^verbatim>\<open>formData.password || editingUser.password\<close>: the empty string is the
  one falsy string. The first argument is what \<^verbatim>\<open>crypto.randomUUID()\<close> returns. A \<^verbatim>\<open>null\<close>
  from \<^verbatim>\<open>request\<close> would make \<^verbatim>\<open>saved.name\<close> throw into the same \<^verbatim>\<open>catch\<close>; the server
  answers no 204 to a POST or PUT.
\<close>

definition UsersPage_handleSubmit ::
  "string \<Rightarrow> users_page \<Rightarrow> 'n database \<Rightarrow> toast \<times> users_page \<times> 'n database" where
  "UsersPage_handleSubmit uuid page db =
     (let formData = up_formData page; users = up_users page in
      if CHR ''@'' \<notin> set (form_email formData)
        then (\<lparr>title = ''Validation Error'', variant = Destructive\<rparr>, page, db)
      else if length (form_password formData) < 6 \<and> up_editingUser page = None
        then (\<lparr>title = ''Validation Error'', variant = Destructive\<rparr>, page, db)
      else
        case up_editingUser page of
          Some editingUser \<Rightarrow>
            (let userData = editingUser
                   \<lparr>user_email := form_email formData, user_name := form_name formData,
                    user_surname := form_surname formData, user_phone := form_phone formData,
                    user_role := form_role formData,
                    user_password := (if form_password formData \<noteq> [] then form_password formData
                                      else user_password editingUser)\<rparr>
             in case updateUser db userData of
                  (Inr (Some saved), db') \<Rightarrow>
                    (\<lparr>title = ''User updated'', variant = Default\<rparr>,
                     \<lparr>up_users = map (\<lambda>u. if user_id u = user_id saved then saved else u) users,
                      up_isDialogOpen = False, up_editingUser = None,
                      up_formData = empty_user_form\<rparr>,
                     db')
                | (_, db') \<Rightarrow>
                    (\<lparr>title = ''Unable to save user'', variant = Destructive\<rparr>, page, db'))
        | None \<Rightarrow>
            (let userData =
                   \<lparr>user_id = uuid,
                    user_email = form_email formData, user_name = form_name formData,
                    user_surname = form_surname formData, user_phone = form_phone formData,
                    user_role = form_role formData, user_password = form_password formData\<rparr>
             in case createUser db userData of
                  (Inr (Some saved), db') \<Rightarrow>
                    (\<lparr>title = ''User created'', variant = Default\<rparr>,
                     \<lparr>up_users = users @ [saved],
                      up_isDialogOpen = False, up_editingUser = None,
                      up_formData = empty_user_form\<rparr>,
                     db')
                | (_, db') \<Rightarrow>
                    (\<lparr>title = ''Unable to save user'', variant = Destructive\<rparr>, page, db')))"

text \<open>\<^verbatim>\<open>handleDelete\<close>, with the page's \<^verbatim>\<open>currentUser = getCurrentUser()\<close> as first
  argument. \<^verbatim>\<open>currentUser?.id\<close> is \<^verbatim>\<open>undefined\<close> when there is no current user, which no
  string is equal to.\<close>

definition UsersPage_handleDelete ::
  "user option \<Rightarrow> string \<Rightarrow> users_page \<Rightarrow> 'n database \<Rightarrow> toast \<times> users_page \<times> 'n database" where
  "UsersPage_handleDelete currentUser i page db =
     (if Some i = map_option user_id currentUser
        then (\<lparr>title = ''Cannot delete'', variant = Destructive\<rparr>, page, db)
      else
        case deleteUser db i of
          (Inr _, db') \<Rightarrow>
            (\<lparr>title = ''User deleted'', variant = Default\<rparr>,
             page\<lparr>up_users := filter (\<lambda>u. user_id u \<noteq> i) (up_users page)\<rparr>,
             db')
        | (Inl err, db') \<Rightarrow>
            (\<lparr>title = ''Unable to delete user'', variant = Destructive\<rparr>, page, db'))"

text \<open>The delete button of a user's card is rendered under
  \<^verbatim>\<open>user.id !== currentUser?.id\<close>, and the whole page under
  \<^verbatim>\<open>currentUser?.role === 'admin'\<close>.\<close>

definition delete_button_rendered :: "user option \<Rightarrow> user \<Rightarrow> bool" where
  "delete_button_rendered currentUser user =
     (Some (user_id user) \<noteq> map_option user_id currentUser)"

definition access_denied :: "user option \<Rightarrow> bool" where
  "access_denied currentUser = (map_option user_role currentUser \<noteq> Some Admin)"

subsection \<open>OrdersPage\<close>







subsection \<open>MaterialsPage and ProductsPage\<close>



section \<open>Example data\<close>

text \<open>The material and the product of the specification's scenario, two users, and a
  database and a browser storage that hold them.\<close>

definition m1 :: "real material" where
  "m1 = \<lparr>material_id = ''m1'', material_name = ''Steel tube'', material_cost = 5/2,
          material_unit = ''m'', material_stock = 120,
          material_createdAt = ''2024-01-01T08:00:00.000Z''\<rparr>"

definition p1 :: "real product" where
  "p1 = \<lparr>product_id = ''p1'', product_name = ''Frame'',
          product_materials = [\<lparr>materialId = ''m1'', mat_quantity = 3\<rparr>],
          product_createdAt = ''2024-01-02T08:00:00.000Z''\<rparr>"

definition alice :: user where
  "alice = \<lparr>user_id = ''u1'', user_email = ''alice@company.com'', user_name = ''Alice'',
             user_surname = ''Jones'', user_phone = ''+370 600 00001'', user_role = Admin,
             user_password = ''wonderland''\<rparr>"

definition bob :: user where
  "bob = \<lparr>user_id = ''u2'', user_email = ''bob@company.com'', user_name = ''Bob'',
           user_surname = ''Smith'', user_phone = ''+370 600 00002'', user_role = Employee,
           user_password = ''builder1''\<rparr>"

definition db1 :: "real database" where
  "db1 = \<lparr>users_table = [alice, bob], materials_table = [m1], products_table = [p1],
           orders_table = []\<rparr>"

definition ls1 :: "real local_storage" where
  "ls1 = \<lparr>USERS = Some [alice, bob], MATERIALS = Some [m1], PRODUCTS = Some [p1],
           ORDERS = None, CURRENT_USER = None\<rparr>"


section \<open>The resolver as a sum\<close>

lemma calculateOrderCost_foldl:
  "calculateOrderCost order products materials =
     foldl (add_line products materials) 0 (order_products order)"
  by (simp add: calculateOrderCost_def add_line_def [abs_def])






lemma find_app:
  "find P (xs @ ys) = (case find P xs of None \<Rightarrow> find P ys | Some x \<Rightarrow> Some x)"
  by (induction xs) simp_all

lemma add_line_dangling:
  "find (\<lambda>p. product_id p = productId line) products = None \<Longrightarrow>
   add_line products materials acc line = acc"
  by (simp add: add_line_def)


section \<open>The store: helper facts\<close>





section \<open>Claims\<close>


text \<open>
  C2. A dangling reference raises no error (the resolver is a total function to a number)
  and adds exactly nothing: an order line whose product is not in the product list leaves
  the total as it is without the line, and alone gives 0; an entry of a product's materials
  whose material is not in the material list leaves the total of every order as it is
  without the entry. No law of arithmetic is used.
\<close>

theorem dangling_references_add_nothing:
  fixes materials :: "'n::{zero,plus,times} material list"
  shows
   "(find (\<lambda>p. product_id p = productId line) products = None \<longrightarrow>
       calculateOrderCost (order\<lparr>order_products := pre @ line # post\<rparr>) products materials
       = calculateOrderCost (order\<lparr>order_products := pre @ post\<rparr>) products materials
       \<and> calculateOrderCost (order\<lparr>order_products := [line]\<rparr>) products materials = 0)
    \<and> (find (\<lambda>m. material_id m = materialId pm) materials = None \<longrightarrow>
       calculateOrderCost order'
         (ppre @ p\<lparr>product_materials := mpre @ pm # mpost\<rparr> # ppost) materials
       = calculateOrderCost order'
         (ppre @ p\<lparr>product_materials := mpre @ mpost\<rparr> # ppost) materials)"
proof (intro conjI impI)
  assume d: "find (\<lambda>p. product_id p = productId line) products = None"
  show "calculateOrderCost (order\<lparr>order_products := pre @ line # post\<rparr>) products materials
       = calculateOrderCost (order\<lparr>order_products := pre @ post\<rparr>) products materials"
    by (simp add: calculateOrderCost_foldl add_line_dangling [OF d])
  show "calculateOrderCost (order\<lparr>order_products := [line]\<rparr>) products materials = 0"
    by (simp add: calculateOrderCost_foldl add_line_dangling [OF d])
next
  assume d: "find (\<lambda>m. material_id m = materialId pm) materials = None"
  let ?new = "p\<lparr>product_materials := mpre @ mpost\<rparr>"
  let ?old = "p\<lparr>product_materials := mpre @ pm # mpost\<rparr>"
  have "add_line (ppre @ ?old # ppost) materials acc l
      = add_line (ppre @ ?new # ppost) materials acc l" for acc l
  proof (cases "find (\<lambda>q. product_id q = productId l) ppre")
    case (Some q)
    then show ?thesis by (simp add: add_line_def find_app)
  next
    case None
    then show ?thesis
      by (simp add: add_line_def find_app d)
  qed
  then have "add_line (ppre @ ?old # ppost) materials = add_line (ppre @ ?new # ppost) materials"
    by (intro ext)
  then show "calculateOrderCost order' (ppre @ ?old # ppost) materials
       = calculateOrderCost order' (ppre @ ?new # ppost) materials"
    by (simp add: calculateOrderCost_foldl)
qed

theorem dangling_references_add_nothing_witness:
  "find (\<lambda>p. product_id p = productId \<lparr>productId = ''p9'', quantity = 4\<rparr>) [p1] = None
   \<and> find (\<lambda>m. material_id m = materialId \<lparr>materialId = ''m9'', mat_quantity = 7\<rparr>) [m1] = None
   \<and> calculateOrderCost
        \<lparr>order_products = [\<lparr>productId = ''p1'', quantity = 2\<rparr>, \<lparr>productId = ''p9'', quantity = 4\<rparr>]\<rparr>
        [p1] [m1]
      = calculateOrderCost \<lparr>order_products = [\<lparr>productId = ''p1'', quantity = 2\<rparr>]\<rparr> [p1] [m1]
   \<and> calculateOrderCost \<lparr>order_products = [\<lparr>productId = ''p9'', quantity = 4\<rparr>]\<rparr> [p1] [m1] = 0
   \<and> calculateOrderCost \<lparr>order_products = [\<lparr>productId = ''p1'', quantity = 2\<rparr>]\<rparr>
        [p1\<lparr>product_materials :=
              [\<lparr>materialId = ''m1'', mat_quantity = 3\<rparr>, \<lparr>materialId = ''m9'', mat_quantity = 7\<rparr>]\<rparr>]
        [m1]
      = calculateOrderCost \<lparr>order_products = [\<lparr>productId = ''p1'', quantity = 2\<rparr>]\<rparr>
        [p1\<lparr>product_materials := [\<lparr>materialId = ''m1'', mat_quantity = 3\<rparr>]\<rparr>] [m1]"
proof -
  have h1: "find (\<lambda>p. product_id p = productId \<lparr>productId = ''p9'', quantity = (4::real)\<rparr>) [p1] = None"
    by (simp add: p1_def)
  have h2: "find (\<lambda>m. material_id m = materialId \<lparr>materialId = ''m9'', mat_quantity = (7::real)\<rparr>) [m1] = None"
    by (simp add: m1_def)
  show ?thesis
    using h1 h2
      dangling_references_add_nothing
        [where line = "\<lparr>productId = ''p9'', quantity = 4\<rparr>" and products = "[p1]"
           and materials = "[m1]" and order = "\<lparr>order_products = []\<rparr>"
           and pre = "[\<lparr>productId = ''p1'', quantity = 2\<rparr>]" and post = "[]"
           and pm = "\<lparr>materialId = ''m9'', mat_quantity = 7\<rparr>"
           and ppre = "[]" and ppost = "[]" and p = p1
           and mpre = "[\<lparr>materialId = ''m1'', mat_quantity = 3\<rparr>]" and mpost = "[]"
           and order' = "\<lparr>order_products = [\<lparr>productId = ''p1'', quantity = 2\<rparr>]\<rparr>"]
    by simp
qed

text \<open>
  C3. Creating a user whose email is already in the users table fails with the duplicate-key
  error (the route answers 500, the client throws), and the table is unchanged: the list
  of users has the same contents and the same length. The page that submits such a user
  shows a destructive notification and keeps its state.
\<close>

theorem create_user_duplicate_email_rejected:
  assumes "user_email user \<in> set (map user_email (users_table db))"
  shows "post_users db user = (Status500 DuplicateKey, db)
       \<and> createUser db user = (Inl (Status500 DuplicateKey), db)
       \<and> get_users (snd (post_users db user)) = get_users db
       \<and> length (users_table (snd (post_users db user))) = length (users_table db)
       \<and> (up_editingUser page = None \<and> form_email (up_formData page) = user_email user \<longrightarrow>
            variant (fst (UsersPage_handleSubmit uuid page db)) = Destructive
            \<and> snd (UsersPage_handleSubmit uuid page db) = (page, db))"
proof -
  from assms have ex: "list_ex (\<lambda>row. user_id row = user_id u' \<or> user_email row = user_email user)
                    (users_table db)" for u' :: user
    by (auto simp: list_ex_iff)
  have post: "post_users db u' = (Status500 DuplicateKey, db)"
    if "user_email u' = user_email user" for u'
    using ex [of u'] that by (simp add: post_users_def sql_insert_def)
  have create: "createUser db u' = (Inl (Status500 DuplicateKey), db)"
    if "user_email u' = user_email user" for u'
    using post [OF that] by (simp add: createUser_def request_def)
  have page: "variant (fst (UsersPage_handleSubmit uuid page db)) = Destructive
            \<and> snd (UsersPage_handleSubmit uuid page db) = (page, db)"
    if "up_editingUser page = None" "form_email (up_formData page) = user_email user"
    using that by (simp add: UsersPage_handleSubmit_def Let_def create)
  show ?thesis
    using post [of user] create [of user] page by simp
qed

theorem create_user_duplicate_email_rejected_witness:
  "user_email (bob\<lparr>user_id := ''u3''\<rparr>) \<in> set (map user_email (users_table db1))
   \<and> post_users db1 (bob\<lparr>user_id := ''u3''\<rparr>) = (Status500 DuplicateKey, db1)
   \<and> createUser db1 (bob\<lparr>user_id := ''u3''\<rparr>) = (Inl (Status500 DuplicateKey), db1)
   \<and> length (users_table (snd (post_users db1 (bob\<lparr>user_id := ''u3''\<rparr>)))) = 2"
proof -
  have h: "user_email (bob\<lparr>user_id := ''u3''\<rparr>) \<in> set (map user_email (users_table db1))"
    by (simp add: db1_def)
  show ?thesis
    using h create_user_duplicate_email_rejected [OF h] by (simp add: db1_def)
qed




text \<open>
  C6. With U the current user of the session, whatever U's role, \<^verbatim>\<open>handleDelete\<close> of the
  users page refuses U's own identifier: it shows the notification "Cannot delete", sends
  no request, and leaves the page's user list and the database unchanged; the delete
  button of U's own card is not rendered.
\<close>

theorem self_delete_refused:
  "UsersPage_handleDelete (Some U) (user_id U) page db
     = (\<lparr>title = ''Cannot delete'', variant = Destructive\<rparr>, page, db)
   \<and> \<not> delete_button_rendered (Some U) U"
  by (simp add: UsersPage_handleDelete_def delete_button_rendered_def)









text \<open>
  C10. A login attempt that no stored user matches in both email and password shows
  "Login failed" and does not write the session: the current user in the storage, and the
  logged-in state, are what they were before the attempt.
\<close>

theorem failed_login_keeps_session:
  assumes "\<forall>u\<in>set (getUsers (initializeStorage uuid (storage app))).
             \<not> (user_email u = email \<and> user_password u = password)"
  shows "fst (handleLogin uuid email password app) = \<lparr>title = ''Login failed'', variant = Destructive\<rparr>
       \<and> getCurrentUser (storage (snd (handleLogin uuid email password app)))
         = getCurrentUser (storage app)
       \<and> CURRENT_USER (storage (snd (handleLogin uuid email password app)))
         = CURRENT_USER (storage app)
       \<and> isLoggedIn (snd (handleLogin uuid email password app)) = isLoggedIn app"
proof -
  from assms have "find (\<lambda>u. user_email u = email \<and> user_password u = password)
                     (getUsers (initializeStorage uuid (storage app))) = None"
    by (simp add: find_None_iff)
  then show ?thesis
    by (simp add: handleLogin_def Let_def getCurrentUser_def initializeStorage_def saveUsers_def
          split: option.splits)
qed

theorem failed_login_keeps_session_witness:
  "find (\<lambda>u. user_email u = ''alice@company.com'' \<and> user_password u = ''Wonderland'')
     (getUsers (initializeStorage ''u0'' (storage \<lparr>storage = ls1, isLoggedIn = False\<rparr>))) = None
   \<and> getCurrentUser (storage (snd (handleLogin ''u0'' ''alice@company.com'' ''Wonderland''
                                     \<lparr>storage = ls1, isLoggedIn = False\<rparr>))) = None
   \<and> \<not> isLoggedIn (snd (handleLogin ''u0'' ''alice@company.com'' ''Wonderland''
                            \<lparr>storage = ls1, isLoggedIn = False\<rparr>))"
proof -
  have h: "\<forall>u\<in>set (getUsers (initializeStorage ''u0'' (storage \<lparr>storage = ls1, isLoggedIn = False\<rparr>))).
       \<not> (user_email u = ''alice@company.com'' \<and> user_password u = ''Wonderland'')"
    by (simp add: initializeStorage_def getUsers_def ls1_def alice_def bob_def)
  have f: "find (\<lambda>u. user_email u = ''alice@company.com'' \<and> user_password u = ''Wonderland'')
     (getUsers (initializeStorage ''u0'' (storage \<lparr>storage = ls1, isLoggedIn = False\<rparr>))) = None"
    by (simp add: initializeStorage_def getUsers_def ls1_def alice_def bob_def)
  show ?thesis
    using f failed_login_keeps_session [OF h] by (simp add: getCurrentUser_def ls1_def)
qed

end
